theory Spec2Isabelle
  imports Complex_Main "HOL-Library.Sublist" "HOL-Library.AList"
begin

section \<open>JavaScript strings\<close>

text \<open>
  A JavaScript string is a finite sequence of code units; \<open>startsWith\<close>, \<open>endsWith\<close>,
  \<open>substring\<close> and \<open>===\<close> only compare and cut such sequences, so a string is modelled as
  a \<open>char list\<close>. None of the three methods throws on a string receiver.
\<close>

definition startsWith :: "string \<Rightarrow> string \<Rightarrow> bool" where
  "startsWith s p = prefix p s"

definition endsWith :: "string \<Rightarrow> string \<Rightarrow> bool" where
  "endsWith s p = suffix p s"

definition substring :: "string \<Rightarrow> nat \<Rightarrow> string" where
  "substring s n = drop n s"

section \<open>Domain matcher\<close>

text \<open>
  \<open>s.startsWith('.') ? s.substring(1) : s\<close>, the normalisation that both matchers apply to
  both arguments (they write it inline).
\<close>

definition stripLeadingDot :: "string \<Rightarrow> string" where
  "stripLeadingDot s = (if startsWith s ''.'' then substring s 1 else s)"

text \<open>
  \<open>utils/cookie-manager.js\<close>, lines 35-55: the matcher of the ES-module variant. It knows the
  exact rule and the subdomain rule only.
\<close>

definition isDomainMatch :: "string \<Rightarrow> string \<Rightarrow> bool" where
  "isDomainMatch cookieDomain targetDomain =
     (let normalizedCookieDomain =
            (if startsWith cookieDomain ''.'' then substring cookieDomain 1 else cookieDomain);
          normalizedTargetDomain =
            (if startsWith targetDomain ''.'' then substring targetDomain 1 else targetDomain)
      in if normalizedCookieDomain = normalizedTargetDomain then True
         else if endsWith normalizedCookieDomain (''.'' @ normalizedTargetDomain) then True
         else False)"

text \<open>
  \<open>utils/cookie-manager-sw.js\<close> (the service-worker variant), lines 41-76: the same two
  rules, followed by the wildcard rule for a target of the form \<open>*.base\<close>.
\<close>

definition isDomainMatch_sw :: "string \<Rightarrow> string \<Rightarrow> bool" where
  "isDomainMatch_sw cookieDomain targetDomain =
     (let normalizedCookieDomain =
            (if startsWith cookieDomain ''.'' then substring cookieDomain 1 else cookieDomain);
          normalizedTargetDomain =
            (if startsWith targetDomain ''.'' then substring targetDomain 1 else targetDomain)
      in if normalizedCookieDomain = normalizedTargetDomain then True
         else if endsWith normalizedCookieDomain (''.'' @ normalizedTargetDomain) then True
         else if startsWith normalizedTargetDomain ''*.'' then
           (let baseDomain = substring normalizedTargetDomain 2
            in if normalizedCookieDomain = baseDomain then True
               else if endsWith normalizedCookieDomain (''.'' @ baseDomain) then True
               else False)
         else False)"

section \<open>Data model\<close>

text \<open>
  The attributes of a browser cookie that the code reads and stores. \<open>expirationDate\<close> is
  optional in the browser's cookie object; the other attributes are always present.
\<close>

record cookie =
  name :: string
  "value" :: string
  domain :: string
  path :: string
  secure :: bool
  httpOnly :: bool
  sameSite :: string
  expirationDate :: "rat option"
  storeId :: string

text \<open>
  A profile as \<open>createProfile\<close> builds it. The code guards every read of \<open>domains\<close> with
  \<open>!domains\<close>, so an absent list is \<open>None\<close>. The profile's \<open>name\<close> is the field
  \<open>profileName\<close> here, since \<open>name\<close> is the cookie's.
\<close>

record profile =
  id :: string
  profileName :: string
  domains :: "string list option"
  enabled :: bool
  createdAt :: nat

text \<open>
  The argument of \<open>chrome.cookies.set\<close> built by \<open>loadCookies\<close>; its fields carry a
  prefix \<open>set\<close> where the source repeats a cookie attribute's name.
\<close>

record cookieDetails =
  url :: string
  setName :: string
  setValue :: string
  setPath :: string
  setSecure :: bool
  setHttpOnly :: bool
  setSameSite :: string
  setExpirationDate :: "rat option"

text \<open>
  An object used as a dictionary keeps its string keys in insertion order; assigning to a
  present key keeps the key's place. That is \<open>AList.update\<close> on an association list, read
  with \<open>map_of\<close>. (Keys that are canonical array indices, or names inherited from
  \<open>Object.prototype\<close>, behave differently in JavaScript; profile ids and cookie domains are
  taken not to be such names.)
\<close>

type_synonym snapshot = "(string \<times> cookie list) list"

type_synonym cookieStore = "(string \<times> snapshot) list"

section \<open>The extension's world\<close>

datatype error = ProfileNotFound | LastError

text \<open>A call into the browser: the storage area or the cookie API.\<close>

datatype call =
    StorageGet string
  | StorageSet string
  | CookiesGetAll "string option"
  | CookiesRemove string string
  | CookiesSet cookieDetails

text \<open>
  The keys of \<open>chrome.storage.local\<close> that these functions read and write (\<open>profiles\<close>,
  \<open>activeProfileId\<close>, \<open>cookieData\<close>; the fourth key, \<open>pluginEnabled\<close>, is read by the event
  listener only and is left out), the browser's live cookies, and the service worker's module variable
  \<open>isSwitchingProfile\<close>. Two fields observe and steer the browser: \<open>calls\<close> records every call
  made, in order, and \<open>rejections\<close> says which of the coming calls the browser rejects (the
  head is the next call; past the end every call succeeds).
\<close>

record world =
  profiles :: "profile list"
  activeProfileId :: "string option"
  cookieData :: cookieStore
  liveCookies :: "cookie list"
  isSwitchingProfile :: bool
  rejections :: "bool list"
  calls :: "call list"

text \<open>
  What the browser's cookie API does, which the repository does not define: which cookies
  \<open>getAll({domain})\<close> selects, and what a successful \<open>remove\<close> and \<open>set\<close> do to the live
  cookies.
\<close>

record chromeCookies =
  domainFilter :: "string \<Rightarrow> cookie \<Rightarrow> bool"
  removeEffect :: "string \<Rightarrow> string \<Rightarrow> cookie list \<Rightarrow> cookie list"
  setEffect :: "cookieDetails \<Rightarrow> cookie list \<Rightarrow> cookie list"

subsection \<open>Promises\<close>

text \<open>
  An \<open>async\<close> function is a state transformer that either resolves to a value or rejects
  with an error. \<open>await m k\<close> is \<open>const x = await m; k x\<close>: a rejection of \<open>m\<close> skips \<open>k\<close>.
  Each function runs to completion: the interleaving of two pending \<open>async\<close> calls is not
  part of the model.
\<close>

type_synonym 'a promise = "world \<Rightarrow> (error + 'a) \<times> world"

definition resolve :: "'a \<Rightarrow> 'a promise" where
  "resolve x w = (Inr x, w)"

definition reject :: "error \<Rightarrow> 'a promise" where
  "reject e w = (Inl e, w)"

text \<open>Reading and changing the world inside a promise.\<close>

definition gets :: "(world \<Rightarrow> 'a) \<Rightarrow> 'a promise" where
  "gets field w = (Inr (field w), w)"

definition modify :: "(world \<Rightarrow> world) \<Rightarrow> unit promise" where
  "modify change w = (Inr (), change w)"

definition await :: "'a promise \<Rightarrow> ('a \<Rightarrow> 'b promise) \<Rightarrow> 'b promise" where
  "await m k w = (case m w of (Inl e, w') \<Rightarrow> (Inl e, w') | (Inr x, w') \<Rightarrow> k x w')"

text \<open>\<open>try { m } catch (error) { console.warn(...) }\<close>: the error is logged and dropped.\<close>

definition tryCatch :: "unit promise \<Rightarrow> unit promise" where
  "tryCatch m w = (case m w of (Inl e, w') \<Rightarrow> (Inr (), w') | (Inr x, w') \<Rightarrow> (Inr x, w'))"

text \<open>\<open>try { m } finally { fin }\<close>: \<open>fin\<close> runs on both outcomes, and the outcome is kept.\<close>

definition tryFinally :: "'a promise \<Rightarrow> (world \<Rightarrow> world) \<Rightarrow> 'a promise" where
  "tryFinally m fin w = (case m w of (r, w') \<Rightarrow> (r, fin w'))"

text \<open>\<open>for (const x of xs) { await f(x); }\<close>\<close>

fun forAwait :: "'a list \<Rightarrow> ('a \<Rightarrow> unit promise) \<Rightarrow> unit promise" where
  "forAwait [] f = resolve ()"
| "forAwait (x # xs) f = await (f x) (\<lambda>_. forAwait xs f)"

text \<open>
  One call into the browser: it is recorded, and it rejects when the head of \<open>rejections\<close>
  says so (\<open>chrome.runtime.lastError\<close> in \<open>utils/storage.js\<close>, a rejected promise of the
  cookie API).
\<close>

definition chromeCall :: "call \<Rightarrow> unit promise" where
  "chromeCall c w =
     (let w1 = w\<lparr>calls := calls w @ [c]\<rparr>
      in case rejections w1 of
           [] \<Rightarrow> (Inr (), w1)
         | r # rs \<Rightarrow> (if r then Inl LastError else Inr (), w1\<lparr>rejections := rs\<rparr>))"

subsection \<open>Storage wrapper (\<open>utils/storage.js\<close>, \<open>utils/storage-sw.js\<close>)\<close>

definition getStorage :: "string \<Rightarrow> (world \<Rightarrow> 'a) \<Rightarrow> 'a promise" where
  "getStorage key field = await (chromeCall (StorageGet key)) (\<lambda>_. gets field)"

definition setStorage :: "string \<Rightarrow> (world \<Rightarrow> world) \<Rightarrow> unit promise" where
  "setStorage key store = await (chromeCall (StorageSet key)) (\<lambda>_. modify store)"

subsection \<open>Cookie API\<close>

definition cookiesGetAll :: "chromeCookies \<Rightarrow> string option \<Rightarrow> cookie list promise" where
  "cookiesGetAll chrome flt =
     await (chromeCall (CookiesGetAll flt))
       (\<lambda>_. gets (\<lambda>w. case flt of None \<Rightarrow> liveCookies w
                           | Some d \<Rightarrow> filter (domainFilter chrome d) (liveCookies w)))"

definition cookiesRemove :: "chromeCookies \<Rightarrow> string \<Rightarrow> string \<Rightarrow> unit promise" where
  "cookiesRemove chrome u n =
     await (chromeCall (CookiesRemove u n))
       (\<lambda>_. modify (\<lambda>w. w\<lparr>liveCookies := removeEffect chrome u n (liveCookies w)\<rparr>))"

definition cookiesSet :: "chromeCookies \<Rightarrow> cookieDetails \<Rightarrow> unit promise" where
  "cookiesSet chrome details =
     await (chromeCall (CookiesSet details))
       (\<lambda>_. modify (\<lambda>w. w\<lparr>liveCookies := setEffect chrome details (liveCookies w)\<rparr>))"

section \<open>Profile store (\<open>utils/config-manager.js\<close>, \<open>utils/config-manager-sw.js\<close>)\<close>

text \<open>The two files differ only in how they reach the storage wrapper.\<close>

definition STORAGE_KEY_PROFILES :: string where
  "STORAGE_KEY_PROFILES = ''profiles''"

definition STORAGE_KEY_ACTIVE_PROFILE_ID :: string where
  "STORAGE_KEY_ACTIVE_PROFILE_ID = ''activeProfileId''"

definition STORAGE_KEY_COOKIE_DATA :: string where
  "STORAGE_KEY_COOKIE_DATA = ''cookieData''"

definition getProfiles :: "profile list promise" where
  "getProfiles = getStorage STORAGE_KEY_PROFILES profiles"

text \<open>\<open>data[KEY] || null\<close>: an empty string is falsy and reads as no id.\<close>

definition getActiveProfileId :: "string option promise" where
  "getActiveProfileId =
     getStorage STORAGE_KEY_ACTIVE_PROFILE_ID
       (\<lambda>w. case activeProfileId w of None \<Rightarrow> None
             | Some i \<Rightarrow> if i = [] then None else Some i)"

definition getActiveProfile :: "profile option promise" where
  "getActiveProfile =
     await getActiveProfileId (\<lambda>activeId.
       case activeId of
         None \<Rightarrow> resolve None
       | Some i \<Rightarrow> await getProfiles (\<lambda>ps. resolve (find (\<lambda>p. id p = i) ps)))"

text \<open>\<open>switchProfile\<close> of the profile store, imported by the worker as \<open>switchProfileConfig\<close>.\<close>

definition switchProfileConfig :: "string \<Rightarrow> unit promise" where
  "switchProfileConfig profileId =
     await getProfiles (\<lambda>ps.
       case find (\<lambda>p. id p = profileId) ps of
         None \<Rightarrow> reject ProfileNotFound
       | Some p \<Rightarrow> setStorage STORAGE_KEY_ACTIVE_PROFILE_ID
                    (\<lambda>w. w\<lparr>activeProfileId := Some profileId\<rparr>))"

section \<open>Cookie snapshot store\<close>

definition getCookieData :: "cookieStore promise" where
  "getCookieData = getStorage STORAGE_KEY_COOKIE_DATA cookieData"

definition saveCookieData :: "cookieStore \<Rightarrow> unit promise" where
  "saveCookieData cd = setStorage STORAGE_KEY_COOKIE_DATA (\<lambda>w. w\<lparr>cookieData := cd\<rparr>)"

text \<open>The object literal that copies the nine attributes of a cookie.\<close>

definition cookieToSave :: "cookie \<Rightarrow> cookie" where
  "cookieToSave c =
     \<lparr>name = name c, value = value c, domain = domain c, path = path c,
      secure = secure c, httpOnly = httpOnly c, sameSite = sameSite c,
      expirationDate = expirationDate c, storeId = storeId c\<rparr>"

text \<open>\<open>if (!cookieData[profileId]) cookieData[profileId] = {}\<close>\<close>

definition ensureProfile :: "string \<Rightarrow> cookieStore \<Rightarrow> cookieStore" where
  "ensureProfile profileId cd =
     (case map_of cd profileId of None \<Rightarrow> AList.update profileId [] cd | Some s \<Rightarrow> cd)"

text \<open>\<open>cookieData[profileId]\<close>, read after \<open>ensureProfile\<close>.\<close>

definition profileSnapshot :: "cookieStore \<Rightarrow> string \<Rightarrow> snapshot" where
  "profileSnapshot cd profileId = (case map_of cd profileId of None \<Rightarrow> [] | Some s \<Rightarrow> s)"

text \<open>\<open>if (!obj[key]) obj[key] = []; obj[key].push(r)\<close>\<close>

definition pushRecord :: "string \<Rightarrow> cookie \<Rightarrow> snapshot \<Rightarrow> snapshot" where
  "pushRecord key r snap =
     (case map_of snap key of
        None \<Rightarrow> AList.update key [r] snap
      | Some rs \<Rightarrow> AList.update key (rs @ [r]) snap)"

text \<open>\<open>findIndex\<close>, with \<open>None\<close> for \<open>-1\<close>.\<close>

fun findIndex :: "('a \<Rightarrow> bool) \<Rightarrow> 'a list \<Rightarrow> nat option" where
  "findIndex P [] = None"
| "findIndex P (x # xs) = (if P x then Some 0 else map_option Suc (findIndex P xs))"

text \<open>
  The end of \<open>saveCookieToActiveProfile\<close>: replace the record with the cookie's name and path
  in the bucket, or push a new one.
\<close>

definition upsertRecord :: "cookie \<Rightarrow> cookie list \<Rightarrow> cookie list" where
  "upsertRecord c bucket =
     (case findIndex (\<lambda>r. name r = name c \<and> path r = path c) bucket of
        Some existingIndex \<Rightarrow> bucket[existingIndex := cookieToSave c]
      | None \<Rightarrow> bucket @ [cookieToSave c])"

definition upsertInto :: "string \<Rightarrow> string \<Rightarrow> cookie \<Rightarrow> cookieStore \<Rightarrow> cookieStore" where
  "upsertInto profileId key c cd0 =
     (let cd1 = ensureProfile profileId cd0;
          snap = profileSnapshot cd1 profileId;
          bucket = (case map_of snap key of None \<Rightarrow> [] | Some rs \<Rightarrow> rs)
      in AList.update profileId (AList.update key (upsertRecord c bucket) snap) cd1)"

subsection \<open>\<open>isCookieInDomains\<close>\<close>

text \<open>\<open>utils/cookie-manager.js\<close>, lines 63-69: no configured domain matches nothing.\<close>

definition isCookieInDomains :: "cookie \<Rightarrow> string list option \<Rightarrow> bool" where
  "isCookieInDomains c doms =
     (case doms of
        None \<Rightarrow> False
      | Some ds \<Rightarrow> if length ds = 0 then False
                  else list_ex (\<lambda>d. isDomainMatch (domain c) d) ds)"

text \<open>\<open>utils/cookie-manager-sw.js\<close>, lines 84-91: no configured domain matches everything.\<close>

definition isCookieInDomains_sw :: "cookie \<Rightarrow> string list option \<Rightarrow> bool" where
  "isCookieInDomains_sw c doms =
     (case doms of
        None \<Rightarrow> True
      | Some ds \<Rightarrow> if length ds = 0 then True
                  else list_ex (\<lambda>d. isDomainMatch_sw (domain c) d) ds)"

subsection \<open>\<open>saveCookies\<close> (the same text in both variants)\<close>

text \<open>The \<open>catch\<close> of this function logs and rethrows, so it changes nothing.\<close>

definition saveCookies :: "chromeCookies \<Rightarrow> string \<Rightarrow> string \<Rightarrow> unit promise" where
  "saveCookies chrome profileId domain0 =
     await (cookiesGetAll chrome (Some domain0)) (\<lambda>cookies.
     await getCookieData (\<lambda>cd0.
       let cd1 = ensureProfile profileId cd0
       in saveCookieData
            (AList.update profileId
               (AList.update domain0 (map cookieToSave cookies) (profileSnapshot cd1 profileId))
               cd1)))"

subsection \<open>\<open>saveCurrentProfileCookies\<close>\<close>

text \<open>\<open>utils/cookie-manager.js\<close>, lines 114-124.\<close>

definition saveCurrentProfileCookies :: "chromeCookies \<Rightarrow> unit promise" where
  "saveCurrentProfileCookies chrome =
     await getActiveProfile (\<lambda>activeProfile.
       case activeProfile of
         None \<Rightarrow> resolve ()
       | Some p \<Rightarrow>
           (case domains p of
              None \<Rightarrow> resolve ()
            | Some ds \<Rightarrow>
                if length ds = 0 then resolve ()
                else forAwait ds (\<lambda>d. saveCookies chrome (id p) d)))"

text \<open>\<open>cookie.domain.startsWith('.') ? cookie.domain.substring(1) : cookie.domain\<close>\<close>

definition normalizedDomain :: "cookie \<Rightarrow> string" where
  "normalizedDomain c = (if startsWith (domain c) ''.'' then substring (domain c) 1 else domain c)"

text \<open>The loop of lines 153-172 of \<open>utils/cookie-manager-sw.js\<close>, from the empty object.\<close>

definition cookiesByDomain :: "cookie list \<Rightarrow> snapshot" where
  "cookiesByDomain allCookies =
     foldl (\<lambda>acc c. pushRecord (normalizedDomain c) (cookieToSave c) acc) [] allCookies"

text \<open>Lines 144-180: the active profile has no configured domain.\<close>

definition saveAllCookies_sw :: "chromeCookies \<Rightarrow> string \<Rightarrow> unit promise" where
  "saveAllCookies_sw chrome profileId =
     await (cookiesGetAll chrome None) (\<lambda>allCookies.
     await getCookieData (\<lambda>cd0.
       let cd1 = ensureProfile profileId cd0
       in saveCookieData (AList.update profileId (cookiesByDomain allCookies) cd1)))"

text \<open>
  Lines 186-226: a configured domain \<open>*.base\<close>. The matching live cookies are pushed onto the
  buckets of the stored snapshot; the \<open>catch\<close> logs the error and does not rethrow.
\<close>

definition saveWildcardCookies_sw :: "chromeCookies \<Rightarrow> string \<Rightarrow> string \<Rightarrow> unit promise" where
  "saveWildcardCookies_sw chrome profileId domain0 =
     (let baseDomain = substring domain0 2
      in tryCatch
           (await (cookiesGetAll chrome None) (\<lambda>allCookies.
              let matchedCookies =
                    filter (\<lambda>c. normalizedDomain c = baseDomain
                                 \<or> endsWith (normalizedDomain c) (''.'' @ baseDomain)) allCookies
              in await getCookieData (\<lambda>cd0.
                   let cd1 = ensureProfile profileId cd0
                   in saveCookieData
                        (AList.update profileId
                           (foldl (\<lambda>snap c. pushRecord (normalizedDomain c) (cookieToSave c) snap)
                              (profileSnapshot cd1 profileId) matchedCookies)
                           cd1)))))"

text \<open>\<open>utils/cookie-manager-sw.js\<close>, lines 136-231.\<close>

definition saveCurrentProfileCookies_sw :: "chromeCookies \<Rightarrow> unit promise" where
  "saveCurrentProfileCookies_sw chrome =
     await getActiveProfile (\<lambda>activeProfile.
       case activeProfile of
         None \<Rightarrow> resolve ()
       | Some p \<Rightarrow>
           (case domains p of
              None \<Rightarrow> saveAllCookies_sw chrome (id p)
            | Some ds \<Rightarrow>
                if length ds = 0 then saveAllCookies_sw chrome (id p)
                else forAwait ds (\<lambda>d.
                       if startsWith d ''*.'' then saveWildcardCookies_sw chrome (id p) d
                       else saveCookies chrome (id p) d)))"

subsection \<open>\<open>loadCookies\<close> (the same text in both variants)\<close>

text \<open>
  \<open>cookie.path || '/'\<close> and \<open>cookie.sameSite || 'no_restriction'\<close> replace an empty string;
  \<open>if (cookie.expirationDate)\<close> keeps a date that is present and not zero.
\<close>

definition cookieUrl :: "cookie \<Rightarrow> string" where
  "cookieUrl c =
     ''http'' @ (if secure c then ''s'' else '''') @ ''://'' @ domain c
       @ (if path c = [] then ''/'' else path c)"

definition cookieDetailsOf :: "cookie \<Rightarrow> cookieDetails" where
  "cookieDetailsOf c =
     \<lparr>url = cookieUrl c,
      setName = name c,
      setValue = value c,
      setPath = (if path c = [] then ''/'' else path c),
      setSecure = secure c,
      setHttpOnly = httpOnly c,
      setSameSite = (if sameSite c = [] then ''no_restriction'' else sameSite c),
      setExpirationDate =
        (case expirationDate c of None \<Rightarrow> None | Some t \<Rightarrow> if t = 0 then None else Some t)\<rparr>"

definition loadCookies :: "chromeCookies \<Rightarrow> string \<Rightarrow> unit promise" where
  "loadCookies chrome profileId =
     await getCookieData (\<lambda>cd.
       case map_of cd profileId of
         None \<Rightarrow> resolve ()
       | Some profileCookies \<Rightarrow>
           forAwait profileCookies (\<lambda>(domain0, cookies).
             forAwait cookies (\<lambda>c. tryCatch (cookiesSet chrome (cookieDetailsOf c)))))"

subsection \<open>\<open>clearAllCookies\<close>\<close>

text \<open>
  The loop body of lines 188-203: a cookie whose domain matches an excluded pattern is
  skipped; for any other cookie \<open>chrome.cookies.remove\<close> is called, and its failure is
  logged and dropped. The two variants differ in the matcher they call.
\<close>

definition clearAllCookiesWith ::
  "(string \<Rightarrow> string \<Rightarrow> bool) \<Rightarrow> chromeCookies \<Rightarrow> string list \<Rightarrow> unit promise" where
  "clearAllCookiesWith matches chrome excludeDomains =
     await (cookiesGetAll chrome None) (\<lambda>allCookies.
       forAwait allCookies (\<lambda>c.
         if list_ex (\<lambda>d. matches (domain c) d) excludeDomains then resolve ()
         else tryCatch (cookiesRemove chrome (cookieUrl c) (name c))))"

definition clearAllCookies :: "chromeCookies \<Rightarrow> string list \<Rightarrow> unit promise" where
  "clearAllCookies = clearAllCookiesWith isDomainMatch"

definition clearAllCookies_sw :: "chromeCookies \<Rightarrow> string list \<Rightarrow> unit promise" where
  "clearAllCookies_sw = clearAllCookiesWith isDomainMatch_sw"

subsection \<open>\<open>saveCookieToActiveProfile\<close>\<close>

text \<open>
  \<open>utils/cookie-manager.js\<close>, lines 228-281: the bucket is the first configured domain that
  matches; \<open>if (!matchedDomain) return\<close> also leaves on a matching empty string.
\<close>

definition saveCookieToActiveProfile :: "cookie \<Rightarrow> unit promise" where
  "saveCookieToActiveProfile c =
     await getActiveProfile (\<lambda>activeProfile.
       case activeProfile of
         None \<Rightarrow> resolve ()
       | Some p \<Rightarrow>
           if \<not> isCookieInDomains c (domains p) then resolve ()
           else (case find (\<lambda>d. isDomainMatch (domain c) d)
                        (case domains p of None \<Rightarrow> [] | Some ds \<Rightarrow> ds) of
                   None \<Rightarrow> resolve ()
                 | Some matchedDomain \<Rightarrow>
                     if matchedDomain = [] then resolve ()
                     else await getCookieData (\<lambda>cd0.
                            saveCookieData (upsertInto (id p) matchedDomain c cd0))))"

text \<open>
  \<open>utils/cookie-manager-sw.js\<close>, lines 335-384: the bucket is the cookie's own domain
  without its leading dot.
\<close>

definition saveCookieToActiveProfile_sw :: "cookie \<Rightarrow> unit promise" where
  "saveCookieToActiveProfile_sw c =
     await getActiveProfile (\<lambda>activeProfile.
       case activeProfile of
         None \<Rightarrow> resolve ()
       | Some p \<Rightarrow>
           if \<not> isCookieInDomains_sw c (domains p) then resolve ()
           else await getCookieData (\<lambda>cd0.
                  saveCookieData (upsertInto (id p) (normalizedDomain c) c cd0)))"

section \<open>Profile switch (\<open>background/service-worker.js\<close>)\<close>

text \<open>
  Lines 78-113. The two versions of the worker have the same text and call the cookie
  manager of their variant, which is the parameter here. A call that finds the flag set
  warns and returns; otherwise the flag is set, the four steps (\<open>switchProfileSteps\<close>, the
  body of \<open>try\<close>) run, the \<open>catch\<close> logs and rethrows, and \<open>finally\<close> clears the flag.
\<close>

definition switchProfileSteps ::
  "unit promise \<Rightarrow> (string list \<Rightarrow> unit promise) \<Rightarrow> (string \<Rightarrow> unit promise)
     \<Rightarrow> string \<Rightarrow> bool \<Rightarrow> unit promise" where
  "switchProfileSteps saveCurrent clearAll load profileId clearCookies =
     await getActiveProfile (\<lambda>currentProfile.
     await (case currentProfile of None \<Rightarrow> resolve () | Some p \<Rightarrow> saveCurrent) (\<lambda>_.
     await (switchProfileConfig profileId) (\<lambda>_.
     await (if clearCookies
            then await getActiveProfile (\<lambda>newProfile.
                   clearAll (case newProfile of
                               None \<Rightarrow> []
                             | Some p \<Rightarrow> (case domains p of None \<Rightarrow> [] | Some ds \<Rightarrow> ds)))
            else resolve ()) (\<lambda>_.
     load profileId))))"

definition switchProfileWith ::
  "unit promise \<Rightarrow> (string list \<Rightarrow> unit promise) \<Rightarrow> (string \<Rightarrow> unit promise)
     \<Rightarrow> string \<Rightarrow> bool \<Rightarrow> unit promise" where
  "switchProfileWith saveCurrent clearAll load profileId clearCookies w =
     (if isSwitchingProfile w then (Inr (), w)
      else tryFinally
             (switchProfileSteps saveCurrent clearAll load profileId clearCookies)
             (\<lambda>w'. w'\<lparr>isSwitchingProfile := False\<rparr>)
             (w\<lparr>isSwitchingProfile := True\<rparr>))"

definition switchProfile :: "chromeCookies \<Rightarrow> string \<Rightarrow> bool \<Rightarrow> unit promise" where
  "switchProfile chrome =
     switchProfileWith (saveCurrentProfileCookies chrome) (clearAllCookies chrome)
       (loadCookies chrome)"

definition switchProfile_sw :: "chromeCookies \<Rightarrow> string \<Rightarrow> bool \<Rightarrow> unit promise" where
  "switchProfile_sw chrome =
     switchProfileWith (saveCurrentProfileCookies_sw chrome) (clearAllCookies_sw chrome)
       (loadCookies chrome)"

section \<open>Notions used in the statements\<close>


text \<open>Whether the browser rejects the next call.\<close>

definition nextCallRejected :: "world \<Rightarrow> bool" where
  "nextCallRejected w = (case rejections w of [] \<Rightarrow> False | r # rs \<Rightarrow> r)"

text \<open>The calls made between two worlds of one run.\<close>

definition newCalls :: "world \<Rightarrow> world \<Rightarrow> call list" where
  "newCalls w w' = drop (length (calls w)) (calls w')"

text \<open>The removal that \<open>clearAllCookies\<close> requests for a cookie.\<close>

definition removalOf :: "cookie \<Rightarrow> call" where
  "removalOf c = CookiesRemove (cookieUrl c) (name c)"






text \<open>No two records of a bucket have the same name and path.\<close>

definition distinctRecords :: "cookie list \<Rightarrow> bool" where
  "distinctRecords rs = distinct (map (\<lambda>r. (name r, path r)) rs)"

subsection \<open>Example data\<close>

definition exampleCookie :: "string \<Rightarrow> string \<Rightarrow> cookie" where
  "exampleCookie d v =
     \<lparr>name = ''sid'', value = v, domain = d, path = ''/'', secure = False, httpOnly = False,
      sameSite = ''lax'', expirationDate = None, storeId = ''0''\<rparr>"

text \<open>
  A browser whose \<open>getAll({domain})\<close> selects the domain and its subdomains, whose
  \<open>remove\<close> deletes the cookies with the requested name and URL, and whose \<open>set\<close> adds a
  cookie for the URL's host.
\<close>

definition exampleChrome :: chromeCookies where
  "exampleChrome =
     \<lparr>domainFilter = (\<lambda>d c. isDomainMatch (domain c) d),
      removeEffect = (\<lambda>u n cs. filter (\<lambda>c. \<not> (cookieUrl c = u \<and> name c = n)) cs),
      setEffect = (\<lambda>d cs. cs @
         [\<lparr>name = setName d, value = setValue d,
           domain = takeWhile (\<lambda>x. x \<noteq> CHR ''/'') (drop 2 (dropWhile (\<lambda>x. x \<noteq> CHR ''/'') (url d))),
           path = setPath d, secure = setSecure d, httpOnly = setHttpOnly d,
           sameSite = setSameSite d, expirationDate = setExpirationDate d, storeId = ''0''\<rparr>])\<rparr>"

text \<open>
  Two profiles, \<open>work\<close> with the given domains and \<open>personal\<close> with none; \<open>work\<close> is
  active, nothing is stored yet, the browser holds the given cookies and rejects nothing.
\<close>

definition exampleWorld :: "string list option \<Rightarrow> cookie list \<Rightarrow> world" where
  "exampleWorld ds cs =
     \<lparr>profiles =
        [\<lparr>id = ''work'', profileName = ''Work'', domains = ds, enabled = True, createdAt = 1\<rparr>,
         \<lparr>id = ''personal'', profileName = ''Personal'', domains = Some [], enabled = True,
          createdAt = 2\<rparr>],
      activeProfileId = Some ''work'',
      cookieData = [],
      liveCookies = cs,
      isSwitchingProfile = False,
      rejections = [],
      calls = []\<rparr>"

section \<open>Notions used in the proofs\<close>

text \<open>
  \<open>always R m\<close>: whatever the outcome, the world after \<open>m\<close> is related by \<open>R\<close> to the world
  before. \<open>keeps f\<close> relates worlds with the same \<open>f\<close>; \<open>emits P\<close> relates a world to one whose
  calls extend it by calls that satisfy \<open>P\<close>. The remaining predicates say that \<open>R\<close> holds
  across the reads, and across each of the four kinds of write that the modules perform.
\<close>

definition always :: "(world \<Rightarrow> world \<Rightarrow> bool) \<Rightarrow> 'a promise \<Rightarrow> bool" where
  "always R m \<longleftrightarrow> (\<forall>w. R w (snd (m w)))"



definition base :: "(world \<Rightarrow> world \<Rightarrow> bool) \<Rightarrow> bool" where
  "base R \<longleftrightarrow> reflp R \<and> transp R
     \<and> (\<forall>k. always R (chromeCall (StorageGet k)))
     \<and> (\<forall>f. always R (chromeCall (CookiesGetAll f)))"

definition writesData :: "(world \<Rightarrow> world \<Rightarrow> bool) \<Rightarrow> bool" where
  "writesData R \<longleftrightarrow> (\<forall>cd. always R (saveCookieData cd))"











section \<open>Properties of the domain matcher\<close>

lemma isDomainMatch_iff:
  "isDomainMatch cd p \<longleftrightarrow>
     stripLeadingDot cd = stripLeadingDot p
     \<or> endsWith (stripLeadingDot cd) (''.'' @ stripLeadingDot p)"
  by (simp add: isDomainMatch_def stripLeadingDot_def Let_def)

lemma isDomainMatch_sw_iff:
  "isDomainMatch_sw cd p \<longleftrightarrow>
     stripLeadingDot cd = stripLeadingDot p
     \<or> endsWith (stripLeadingDot cd) (''.'' @ stripLeadingDot p)
     \<or> (startsWith (stripLeadingDot p) ''*.''
        \<and> (stripLeadingDot cd = substring (stripLeadingDot p) 2
           \<or> endsWith (stripLeadingDot cd) (''.'' @ substring (stripLeadingDot p) 2)))"
  by (auto simp add: isDomainMatch_sw_def stripLeadingDot_def Let_def)

text \<open>Rewriting the string operations on literals down to list computations.\<close>

lemmas js_eval =
  startsWith_def endsWith_def substring_def stripLeadingDot_def suffix_to_prefix

lemma suffix_single: "suffix [x] xs \<longleftrightarrow> xs \<noteq> [] \<and> last xs = x"
  by (cases xs rule: rev_cases) (auto simp: suffix_def)

lemma not_suffix_Nil: "\<not> suffix (x # xs) []"
  by (simp add: suffix_def)

lemma endsWith_Nil: "\<not> endsWith [] (x # xs)"
  by (simp add: endsWith_def suffix_def)

lemma stripLeadingDot_Nil: "stripLeadingDot [] = []"
  by (simp add: stripLeadingDot_def startsWith_def)

lemma stripLeadingDot_eq_Nil: "stripLeadingDot p = [] \<longleftrightarrow> p = [] \<or> p = ''.''"
  by (cases p) (auto simp: stripLeadingDot_def startsWith_def substring_def)

lemma stripLeadingDot_eq_wild:
  "stripLeadingDot p = ''*.'' \<longleftrightarrow> p = ''*.'' \<or> p = ''.*.''"
  by (cases p) (auto simp: stripLeadingDot_def startsWith_def substring_def)

lemma wildcard_only: "startsWith s ''*.'' \<and> [] = substring s 2 \<longleftrightarrow> s = ''*.''"
  by (auto simp: startsWith_def substring_def prefix_def)

lemma empty_pattern: "isDomainMatch cd [] \<longleftrightarrow> cd = [] \<or> endsWith cd ''.''"
  by (cases cd)
    (auto simp add: isDomainMatch_iff startsWith_def endsWith_def substring_def
      stripLeadingDot_def suffix_single)

lemma empty_pattern_sw: "isDomainMatch_sw cd [] \<longleftrightarrow> cd = [] \<or> endsWith cd ''.''"
  by (cases cd)
    (auto simp add: isDomainMatch_sw_iff startsWith_def endsWith_def substring_def
      stripLeadingDot_def suffix_single)

lemma empty_cookie: "isDomainMatch [] p \<longleftrightarrow> p = [] \<or> p = ''.''"
  by (cases p)
    (auto simp add: isDomainMatch_iff startsWith_def endsWith_def substring_def
      stripLeadingDot_def not_suffix_Nil)

lemma empty_cookie_sw:
  "isDomainMatch_sw [] p \<longleftrightarrow> p = [] \<or> p = ''.'' \<or> p = ''*.'' \<or> p = ''.*.''"
proof -
  have "isDomainMatch_sw [] p \<longleftrightarrow>
          [] = stripLeadingDot p
          \<or> (startsWith (stripLeadingDot p) ''*.'' \<and> [] = substring (stripLeadingDot p) 2)"
    by (simp add: isDomainMatch_sw_iff stripLeadingDot_Nil endsWith_Nil)
  also have "\<dots> \<longleftrightarrow> stripLeadingDot p = [] \<or> stripLeadingDot p = ''*.''"
    by (simp only: wildcard_only) auto
  finally show ?thesis
    by (simp only: stripLeadingDot_eq_Nil stripLeadingDot_eq_wild) auto
qed

text \<open>
  C1 (as amended). In the service-worker variant, a pattern that starts with \<open>*.\<close> after
  normalisation matches every cookie domain whose normalised form is the pattern's base or
  ends with a dot followed by the base; \<open>example.com\<close> matches \<open>*.example.com\<close>. The
  ES-module variant has no wildcard rule: it returns true exactly by the exact rule and the
  subdomain rule.
\<close>

theorem isDomainMatch_wildcard:
  "(startsWith (stripLeadingDot pattern) ''*.''
      \<and> (stripLeadingDot cookieDomain = substring (stripLeadingDot pattern) 2
         \<or> endsWith (stripLeadingDot cookieDomain)
              (''.'' @ substring (stripLeadingDot pattern) 2))
      \<longrightarrow> isDomainMatch_sw cookieDomain pattern)
   \<and> isDomainMatch_sw ''example.com'' ''*.example.com''
   \<and> (isDomainMatch cookieDomain pattern \<longleftrightarrow>
        stripLeadingDot cookieDomain = stripLeadingDot pattern
        \<or> endsWith (stripLeadingDot cookieDomain) (''.'' @ stripLeadingDot pattern))"
proof (intro conjI impI)
  assume "startsWith (stripLeadingDot pattern) ''*.''
      \<and> (stripLeadingDot cookieDomain = substring (stripLeadingDot pattern) 2
         \<or> endsWith (stripLeadingDot cookieDomain)
              (''.'' @ substring (stripLeadingDot pattern) 2))"
  then show "isDomainMatch_sw cookieDomain pattern"
    by (simp add: isDomainMatch_sw_iff)
next
  show "isDomainMatch_sw ''example.com'' ''*.example.com''"
    by (simp add: isDomainMatch_sw_iff js_eval)
next
  show "isDomainMatch cookieDomain pattern \<longleftrightarrow>
        stripLeadingDot cookieDomain = stripLeadingDot pattern
        \<or> endsWith (stripLeadingDot cookieDomain) (''.'' @ stripLeadingDot pattern)"
    by (rule isDomainMatch_iff)
qed

theorem isDomainMatch_wildcard_witness:
  "startsWith (stripLeadingDot ''*.wps.com'') ''*.''
   \<and> endsWith (stripLeadingDot ''.a.wps.com'') (''.'' @ substring (stripLeadingDot ''*.wps.com'') 2)
   \<and> isDomainMatch_sw ''.a.wps.com'' ''*.wps.com''
   \<and> \<not> isDomainMatch ''.a.wps.com'' ''*.wps.com''"
proof -
  have h: "startsWith (stripLeadingDot ''*.wps.com'') ''*.''
           \<and> endsWith (stripLeadingDot ''.a.wps.com'')
                (''.'' @ substring (stripLeadingDot ''*.wps.com'') 2)"
    by (simp add: js_eval)
  have n: "\<not> (stripLeadingDot ''.a.wps.com'' = stripLeadingDot ''*.wps.com''
              \<or> endsWith (stripLeadingDot ''.a.wps.com'') (''.'' @ stripLeadingDot ''*.wps.com''))"
    by (simp add: js_eval)
  from h n isDomainMatch_wildcard [of "''*.wps.com''" "''.a.wps.com''"]
  show ?thesis by blast
qed

text \<open>
  The claim C1 as stated fails on the ES-module variant: the pattern is a wildcard, the
  cookie domain is its base, and the matcher answers false.
\<close>

theorem isDomainMatch_wildcard_counterexample:
  "startsWith (stripLeadingDot ''*.example.com'') ''*.''
   \<and> stripLeadingDot ''example.com'' = substring (stripLeadingDot ''*.example.com'') 2
   \<and> \<not> isDomainMatch ''example.com'' ''*.example.com''"
  by (simp add: isDomainMatch_iff js_eval)

text \<open>
  C9 (as amended). The matcher is a total function of two strings with no effect. With an
  empty pattern it returns true exactly when the cookie domain is empty or ends with a dot;
  with an empty cookie domain it returns true exactly when the pattern is empty or a single
  dot, and in the service-worker variant also when the pattern is \<open>*.\<close> or \<open>.*.\<close>.
\<close>

theorem isDomainMatch_empty_inputs:
  "(isDomainMatch cookieDomain [] \<longleftrightarrow> cookieDomain = [] \<or> endsWith cookieDomain ''.'')
   \<and> (isDomainMatch_sw cookieDomain [] \<longleftrightarrow> cookieDomain = [] \<or> endsWith cookieDomain ''.'')
   \<and> (isDomainMatch [] pattern \<longleftrightarrow> pattern = [] \<or> pattern = ''.'')
   \<and> (isDomainMatch_sw [] pattern \<longleftrightarrow>
        pattern = [] \<or> pattern = ''.'' \<or> pattern = ''*.'' \<or> pattern = ''.*.'')"
  using empty_pattern empty_pattern_sw empty_cookie empty_cookie_sw by blast

theorem isDomainMatch_empty_inputs_witness:
  "\<not> isDomainMatch ''example.com'' [] \<and> \<not> isDomainMatch_sw ''example.com'' []
   \<and> \<not> isDomainMatch [] ''example.com'' \<and> \<not> isDomainMatch_sw [] ''example.com''"
  using isDomainMatch_empty_inputs [of "''example.com''" "''example.com''"]
  by (simp add: endsWith_def suffix_to_prefix)

text \<open>
  The claim C9 as stated fails: one input is empty, the other is not, and both variants
  answer true.
\<close>

theorem isDomainMatch_empty_inputs_counterexample:
  "''.'' \<noteq> [] \<and> isDomainMatch [] ''.'' \<and> isDomainMatch_sw [] ''.''
   \<and> ''x.'' \<noteq> [] \<and> isDomainMatch ''x.'' [] \<and> isDomainMatch_sw ''x.'' []"
  by (simp add: isDomainMatch_iff isDomainMatch_sw_iff js_eval)

text \<open>
  C10 (as amended). The two matchers agree on every pair whose normalised pattern does not
  start with \<open>*.\<close>, and whenever the ES-module matcher returns true so does the
  service-worker matcher.
\<close>

theorem isDomainMatch_variants:
  "(\<not> startsWith (stripLeadingDot pattern) ''*.''
      \<longrightarrow> isDomainMatch_sw cookieDomain pattern = isDomainMatch cookieDomain pattern)
   \<and> (isDomainMatch cookieDomain pattern \<longrightarrow> isDomainMatch_sw cookieDomain pattern)"
  by (auto simp add: isDomainMatch_iff isDomainMatch_sw_iff)

theorem isDomainMatch_variants_witness:
  "\<not> startsWith (stripLeadingDot ''example.com'') ''*.''
   \<and> isDomainMatch ''sub.example.com'' ''example.com''
   \<and> isDomainMatch_sw ''sub.example.com'' ''example.com''"
proof -
  have h: "\<not> startsWith (stripLeadingDot ''example.com'') ''*.''"
    by (simp add: js_eval)
  have m: "isDomainMatch ''sub.example.com'' ''example.com''"
    by (simp add: isDomainMatch_iff js_eval)
  from h m isDomainMatch_variants [of "''example.com''" "''sub.example.com''"]
  show ?thesis by blast
qed

text \<open>The claim C10 as stated fails: the two matchers differ on a wildcard pattern.\<close>

theorem isDomainMatch_variants_counterexample:
  "isDomainMatch ''a.wps.com'' ''*.wps.com'' \<noteq> isDomainMatch_sw ''a.wps.com'' ''*.wps.com''"
  by (simp add: isDomainMatch_iff isDomainMatch_sw_iff js_eval)

text \<open>
  C2 (as amended). In the service-worker variant \<open>isCookieInDomains\<close> returns true when the
  pattern list is absent or empty, and otherwise exactly when some pattern matches the
  cookie's domain. In the ES-module variant it returns false when the list is absent or
  empty, and otherwise exactly when some pattern matches.
\<close>

theorem isCookieInDomains_policy:
  "isCookieInDomains_sw c None \<and> isCookieInDomains_sw c (Some [])
   \<and> (ds \<noteq> [] \<longrightarrow>
        (isCookieInDomains_sw c (Some ds) \<longleftrightarrow> (\<exists>d\<in>set ds. isDomainMatch_sw (domain c) d)))
   \<and> \<not> isCookieInDomains c None \<and> \<not> isCookieInDomains c (Some [])
   \<and> (ds \<noteq> [] \<longrightarrow>
        (isCookieInDomains c (Some ds) \<longleftrightarrow> (\<exists>d\<in>set ds. isDomainMatch (domain c) d)))"
  by (simp add: isCookieInDomains_def isCookieInDomains_sw_def list_ex_iff)

theorem isCookieInDomains_policy_witness:
  "[''example.com''] \<noteq> []
   \<and> isCookieInDomains_sw (exampleCookie ''.example.com'' ''1'') (Some [''example.com''])
   \<and> isCookieInDomains (exampleCookie ''.example.com'' ''1'') (Some [''example.com''])"
proof -
  have h: "[''example.com''] \<noteq> []" by simp
  have m: "isDomainMatch (domain (exampleCookie ''.example.com'' ''1'')) ''example.com''"
    by (simp add: exampleCookie_def isDomainMatch_iff js_eval)
  have m': "isDomainMatch_sw (domain (exampleCookie ''.example.com'' ''1'')) ''example.com''"
    by (simp add: exampleCookie_def isDomainMatch_sw_iff js_eval)
  from h m m'
    isCookieInDomains_policy [of "exampleCookie ''.example.com'' ''1''" "[''example.com'']"]
  show ?thesis by simp
qed

text \<open>
  The claim C2 as stated fails on the ES-module variant: with an empty pattern list the
  answer is false.
\<close>

theorem isCookieInDomains_policy_counterexample:
  "\<not> isCookieInDomains (exampleCookie ''example.com'' ''1'') (Some [])
   \<and> \<not> isCookieInDomains (exampleCookie ''example.com'' ''1'') None"
  by (simp add: isCookieInDomains_def)

section \<open>Invariants of the asynchronous operations\<close>

lemma always_resolve: "reflp R \<Longrightarrow> always R (resolve x)"
  by (simp add: always_def resolve_def reflp_def)


lemma always_gets: "reflp R \<Longrightarrow> always R (gets f)"
  by (simp add: always_def gets_def reflp_def)

lemma always_await:
  assumes "transp R" "always R m" "\<And>x. always R (k x)"
  shows "always R (await m k)"
proof -
  have "R w (snd (await m k w))" for w
  proof (cases "m w")
    case (Pair r w')
    have 1: "R w w'" using assms(2) Pair by (auto simp: always_def dest: spec [of _ w])
    show ?thesis
    proof (cases r)
      case (Inl e)
      with Pair 1 show ?thesis by (simp add: await_def)
    next
      case (Inr x)
      have "R w' (snd (k x w'))" using assms(3) by (simp add: always_def)
      with 1 assms(1) have "R w (snd (k x w'))" by (blast dest: transpD)
      with Pair Inr show ?thesis by (simp add: await_def)
    qed
  qed
  then show ?thesis by (simp add: always_def)
qed



lemma always_getStorage: "base R \<Longrightarrow> always R (getStorage k f)"
  by (auto simp: base_def getStorage_def intro!: always_await always_gets)


lemma always_getActiveProfile: "base R \<Longrightarrow> always R getActiveProfile"
  unfolding getActiveProfile_def getActiveProfileId_def getProfiles_def
  by (intro always_await always_getStorage)
    (auto simp: base_def intro!: always_resolve always_await always_getStorage split: option.split)

lemma always_getCookieData: "base R \<Longrightarrow> always R getCookieData"
  by (simp add: getCookieData_def always_getStorage)









lemma always_saveCookieToActiveProfile:
  "base R \<Longrightarrow> writesData R \<Longrightarrow> always R (saveCookieToActiveProfile c)"
  unfolding saveCookieToActiveProfile_def
  by (intro always_await always_getActiveProfile)
    (auto simp: base_def writesData_def intro!: always_resolve always_await always_getCookieData
      split: option.split)

lemma always_saveCookieToActiveProfile_sw:
  "base R \<Longrightarrow> writesData R \<Longrightarrow> always R (saveCookieToActiveProfile_sw c)"
  unfolding saveCookieToActiveProfile_sw_def
  by (intro always_await always_getActiveProfile)
    (auto simp: base_def writesData_def intro!: always_resolve always_await always_getCookieData
      split: option.split)




lemma chromeCall_ok:
  "\<not> nextCallRejected w \<Longrightarrow>
     chromeCall c w = (Inr (), w\<lparr>calls := calls w @ [c], rejections := tl (rejections w)\<rparr>)"
  by (cases "rejections w") (simp_all add: chromeCall_def nextCallRejected_def Let_def)

lemma chromeCall_rejected:
  "nextCallRejected w \<Longrightarrow>
     chromeCall c w = (Inl LastError, w\<lparr>calls := calls w @ [c], rejections := tl (rejections w)\<rparr>)"
  by (cases "rejections w") (simp_all add: chromeCall_def nextCallRejected_def Let_def)


lemma chromeCall_fst:
  "fst (chromeCall c w) = (if nextCallRejected w then Inl LastError else Inr ())"
  by (cases "nextCallRejected w") (simp_all add: chromeCall_ok chromeCall_rejected)


subsection \<open>Fields that an operation leaves alone\<close>










subsection \<open>Calls that an operation makes\<close>










subsection \<open>clearAllCookies\<close>

lemma newCalls_append: "calls w' = calls w @ new \<Longrightarrow> newCalls w w' = new"
  by (simp add: newCalls_def)

lemma tryCatch_cookiesRemove:
  "fst (tryCatch (cookiesRemove chrome u n) w) = Inr ()
   \<and> calls (snd (tryCatch (cookiesRemove chrome u n) w)) = calls w @ [CookiesRemove u n]"
  by (cases "nextCallRejected w")
    (simp_all add: tryCatch_def cookiesRemove_def await_def chromeCall_ok chromeCall_rejected
      modify_def)

lemma clear_loop:
  "fst (forAwait cs (\<lambda>c. if list_ex (\<lambda>d. matches (domain c) d) ex then resolve ()
                         else tryCatch (cookiesRemove chrome (cookieUrl c) (name c))) w) = Inr ()
   \<and> calls (snd (forAwait cs (\<lambda>c. if list_ex (\<lambda>d. matches (domain c) d) ex then resolve ()
                         else tryCatch (cookiesRemove chrome (cookieUrl c) (name c))) w))
     = calls w @ map removalOf (filter (\<lambda>c. \<not> (\<exists>d\<in>set ex. matches (domain c) d)) cs)"
proof (induction cs arbitrary: w)
  case Nil
  show ?case by (simp add: resolve_def)
next
  case (Cons c cs)
  show ?case
  proof (cases "list_ex (\<lambda>d. matches (domain c) d) ex")
    case True
    then show ?thesis
      using Cons.IH [of w] by (simp add: await_def resolve_def list_ex_iff)
  next
    case False
    obtain r w' where step: "tryCatch (cookiesRemove chrome (cookieUrl c) (name c)) w = (r, w')"
      by (cases "tryCatch (cookiesRemove chrome (cookieUrl c) (name c)) w")
    with tryCatch_cookiesRemove [of chrome "cookieUrl c" "name c" w]
    have r: "r = Inr ()" and c: "calls w' = calls w @ [removalOf c]"
      by (simp_all add: removalOf_def)
    from False step r c Cons.IH [of w'] show ?thesis
      by (simp add: await_def list_ex_iff)
  qed
qed

lemma clearAllCookiesWith_calls:
  assumes "\<not> nextCallRejected w"
  shows "fst (clearAllCookiesWith matches chrome ex w) = Inr ()
   \<and> newCalls w (snd (clearAllCookiesWith matches chrome ex w))
     = CookiesGetAll None
       # map removalOf (filter (\<lambda>c. \<not> (\<exists>d\<in>set ex. matches (domain c) d)) (liveCookies w))"
proof -
  let ?w1 = "w\<lparr>calls := calls w @ [CookiesGetAll None], rejections := tl (rejections w)\<rparr>"
  have "clearAllCookiesWith matches chrome ex w
        = forAwait (liveCookies w) (\<lambda>c. if list_ex (\<lambda>d. matches (domain c) d) ex then resolve ()
                         else tryCatch (cookiesRemove chrome (cookieUrl c) (name c))) ?w1"
    using assms
    by (simp add: clearAllCookiesWith_def cookiesGetAll_def await_def chromeCall_ok gets_def)
  with clear_loop [of "liveCookies w" matches ex chrome ?w1] show ?thesis
    by (simp add: newCalls_def)
qed

lemma example_excluded:
  "(\<exists>d\<in>set [''example.com'']. isDomainMatch (domain c) d)
     \<longleftrightarrow> normalizedDomain c = ''example.com'' \<or> endsWith (normalizedDomain c) ''.example.com''"
  "(\<exists>d\<in>set [''example.com'']. isDomainMatch_sw (domain c) d)
     \<longleftrightarrow> normalizedDomain c = ''example.com'' \<or> endsWith (normalizedDomain c) ''.example.com''"
  by (simp_all add: isDomainMatch_iff isDomainMatch_sw_iff normalizedDomain_def
      stripLeadingDot_def startsWith_def substring_def)

text \<open>
  C8. When the browser answers the enumeration, \<open>clearAllCookies\<close> resolves, and after
  the enumeration it requests the removal of exactly the live cookies whose domain matches
  no excluded pattern, in the order of the enumeration, whether or not a removal is
  rejected; no removal is requested for a cookie that matches an excluded pattern. With
  \<open>example.com\<close> as the only excluded pattern, the cookies left alone are those whose
  normalised domain is \<open>example.com\<close> or ends with \<open>.example.com\<close>. Both variants.
\<close>

theorem clearAllCookies_removals:
  assumes "\<not> nextCallRejected w"
  shows
    "fst (clearAllCookies chrome excludeDomains w) = Inr ()
     \<and> newCalls w (snd (clearAllCookies chrome excludeDomains w))
         = CookiesGetAll None
           # map removalOf
               (filter (\<lambda>c. \<not> (\<exists>d\<in>set excludeDomains. isDomainMatch (domain c) d))
                  (liveCookies w))
     \<and> fst (clearAllCookies_sw chrome excludeDomains w) = Inr ()
     \<and> newCalls w (snd (clearAllCookies_sw chrome excludeDomains w))
         = CookiesGetAll None
           # map removalOf
               (filter (\<lambda>c. \<not> (\<exists>d\<in>set excludeDomains. isDomainMatch_sw (domain c) d))
                  (liveCookies w))
     \<and> newCalls w (snd (clearAllCookies chrome [''example.com''] w))
         = CookiesGetAll None
           # map removalOf
               (filter (\<lambda>c. \<not> (normalizedDomain c = ''example.com''
                                \<or> endsWith (normalizedDomain c) ''.example.com''))
                  (liveCookies w))
     \<and> newCalls w (snd (clearAllCookies_sw chrome [''example.com''] w))
         = CookiesGetAll None
           # map removalOf
               (filter (\<lambda>c. \<not> (normalizedDomain c = ''example.com''
                                \<or> endsWith (normalizedDomain c) ''.example.com''))
                  (liveCookies w))"
  using clearAllCookiesWith_calls [OF assms, of isDomainMatch chrome excludeDomains]
    clearAllCookiesWith_calls [OF assms, of isDomainMatch_sw chrome excludeDomains]
    clearAllCookiesWith_calls [OF assms, of isDomainMatch chrome "[''example.com'']"]
    clearAllCookiesWith_calls [OF assms, of isDomainMatch_sw chrome "[''example.com'']"]
  by (simp only: clearAllCookies_def clearAllCookies_sw_def example_excluded simp_thms)


lemmas run_defs =
  await_def resolve_def reject_def gets_def modify_def tryCatch_def tryFinally_def chromeCall_def
  getStorage_def setStorage_def cookiesGetAll_def cookiesRemove_def cookiesSet_def
  getProfiles_def getActiveProfileId_def getActiveProfile_def switchProfileConfig_def
  getCookieData_def saveCookieData_def

lemmas example_defs =
  exampleWorld_def exampleCookie_def exampleChrome_def

theorem clearAllCookies_removals_witness:
  "\<not> nextCallRejected
       (exampleWorld None
          [exampleCookie ''example.com'' ''1'', exampleCookie ''.a.example.com'' ''2'',
           exampleCookie ''other.com'' ''3''])
   \<and> newCalls
        (exampleWorld None
          [exampleCookie ''example.com'' ''1'', exampleCookie ''.a.example.com'' ''2'',
           exampleCookie ''other.com'' ''3''])
        (snd (clearAllCookies_sw exampleChrome [''example.com'']
          (exampleWorld None
            [exampleCookie ''example.com'' ''1'', exampleCookie ''.a.example.com'' ''2'',
             exampleCookie ''other.com'' ''3''])))
      = [CookiesGetAll None, CookiesRemove ''http://other.com/'' ''sid'']"
proof -
  let ?w = "exampleWorld None
          [exampleCookie ''example.com'' ''1'', exampleCookie ''.a.example.com'' ''2'',
           exampleCookie ''other.com'' ''3'']"
  have h: "\<not> nextCallRejected ?w"
    by (simp add: nextCallRejected_def exampleWorld_def)
  from clearAllCookies_removals [OF h, of exampleChrome "[''example.com'']"]
  have "newCalls ?w (snd (clearAllCookies_sw exampleChrome [''example.com''] ?w))
         = CookiesGetAll None
           # map removalOf
               (filter (\<lambda>c. \<not> (normalizedDomain c = ''example.com''
                                \<or> endsWith (normalizedDomain c) ''.example.com''))
                  (liveCookies ?w))"
    by (elim conjE)
  also have "\<dots> = [CookiesGetAll None, CookiesRemove ''http://other.com/'' ''sid'']"
    by (simp add: example_defs normalizedDomain_def js_eval removalOf_def cookieUrl_def)
  finally show ?thesis using h by simp
qed


section \<open>Operations that resolve\<close>

subsection \<open>Every operation but the pointer update resolves\<close>























subsection \<open>Phases\<close>








section \<open>The profile switch\<close>

subsection \<open>The profile store without rejections\<close>






subsection \<open>What each step may call\<close>
















text \<open>The definitions that a run on a concrete world unfolds.\<close>

lemmas op_defs =
  switchProfile_def switchProfile_sw_def switchProfileWith_def switchProfileSteps_def
  saveCurrentProfileCookies_def saveCurrentProfileCookies_sw_def saveAllCookies_sw_def
  saveWildcardCookies_sw_def saveCookies_def loadCookies_def
  clearAllCookies_def clearAllCookies_sw_def clearAllCookiesWith_def
  saveCookieToActiveProfile_def saveCookieToActiveProfile_sw_def
  cookiesByDomain_def pushRecord_def ensureProfile_def profileSnapshot_def upsertInto_def
  upsertRecord_def cookieToSave_def normalizedDomain_def cookieUrl_def cookieDetailsOf_def
  isCookieInDomains_def isCookieInDomains_sw_def isDomainMatch_def isDomainMatch_sw_def
  STORAGE_KEY_PROFILES_def STORAGE_KEY_ACTIVE_PROFILE_ID_def STORAGE_KEY_COOKIE_DATA_def
  Let_def



section \<open>Bulk save\<close>

















section \<open>Bucket keys\<close>










lemma findIndex_Some:
  "findIndex P xs = Some i \<Longrightarrow> i < length xs \<and> P (xs ! i) \<and> (\<forall>j<i. \<not> P (xs ! j))"
proof (induction xs arbitrary: i)
  case Nil
  then show ?case by simp
next
  case (Cons x xs)
  show ?case
  proof (cases "P x")
    case True
    with Cons.prems show ?thesis by simp
  next
    case False
    with Cons.prems obtain i' where i': "findIndex P xs = Some i'" "i = Suc i'"
      by auto
    from Cons.IH [OF i'(1)] i'(2) False show ?thesis
      by (auto simp: nth_Cons split: nat.split)
  qed
qed

lemma findIndex_None: "findIndex P xs = None \<longleftrightarrow> (\<forall>x\<in>set xs. \<not> P x)"
  by (induction xs) auto



lemma upsertRecord_holds: "cookieToSave c \<in> set (upsertRecord c bucket)"
  by (auto simp: upsertRecord_def split: option.split dest: findIndex_Some intro: set_update_memI)























section \<open>Records of a bucket\<close>

lemma findIndex_append_new:
  "\<forall>x\<in>set xs. \<not> P x \<Longrightarrow> P y \<Longrightarrow> findIndex P (xs @ [y]) = Some (length xs)"
  by (induction xs) auto

lemma findIndex_update_same:
  "findIndex P xs = Some i \<Longrightarrow> P y \<Longrightarrow> findIndex P (xs[i := y]) = Some i"
proof (induction xs arbitrary: i)
  case Nil
  then show ?case by simp
next
  case (Cons x xs)
  show ?case
  proof (cases "P x")
    case True
    with Cons.prems show ?thesis by simp
  next
    case False
    with Cons.prems obtain i' where "findIndex P xs = Some i'" "i = Suc i'"
      by auto
    with Cons.IH [of i'] Cons.prems(2) False show ?thesis by simp
  qed
qed

lemma key_cookieToSave: "name (cookieToSave c) = name c" "path (cookieToSave c) = path c"
  by (simp_all add: cookieToSave_def)

lemma upsertRecord_twice: "upsertRecord c (upsertRecord c bucket) = upsertRecord c bucket"
proof (cases "findIndex (\<lambda>r. name r = name c \<and> path r = path c) bucket")
  case None
  then have "findIndex (\<lambda>r. name r = name c \<and> path r = path c) (bucket @ [cookieToSave c])
             = Some (length bucket)"
    by (intro findIndex_append_new) (simp_all add: findIndex_None key_cookieToSave)
  with None show ?thesis by (simp add: upsertRecord_def)
next
  case (Some i)
  then have "findIndex (\<lambda>r. name r = name c \<and> path r = path c) (bucket[i := cookieToSave c])
             = Some i"
    by (rule findIndex_update_same) (simp add: key_cookieToSave)
  with Some show ?thesis by (simp add: upsertRecord_def)
qed

lemma upsertRecord_distinct:
  assumes "distinctRecords bucket"
  shows "distinctRecords (upsertRecord c bucket)"
proof (cases "findIndex (\<lambda>r. name r = name c \<and> path r = path c) bucket")
  case None
  then have "(name c, path c) \<notin> (\<lambda>r. (name r, path r)) ` set bucket"
    by (auto simp: findIndex_None)
  with None assms show ?thesis
    by (simp add: upsertRecord_def distinctRecords_def key_cookieToSave)
next
  case (Some i)
  from findIndex_Some [OF Some]
  have "(map (\<lambda>r. (name r, path r)) bucket)[i := (name c, path c)]
        = map (\<lambda>r. (name r, path r)) bucket"
    by (simp add: list_update_same_conv)
  with Some assms show ?thesis
    by (simp add: upsertRecord_def distinctRecords_def map_update key_cookieToSave)
qed

lemma distinct_single: "distinct xs \<Longrightarrow> set xs = {x} \<Longrightarrow> xs = [x]"
proof (cases xs)
  case Nil
  assume "set xs = {x}"
  with Nil show ?thesis by simp
next
  case (Cons y ys)
  assume "distinct xs" "set xs = {x}"
  with Cons have "y = x" "set ys \<subseteq> {x}" "x \<notin> set ys"
    by auto
  then have "ys = []" by (cases ys) auto
  with Cons \<open>y = x\<close> show ?thesis by simp
qed

lemma upsertRecord_one:
  assumes "distinctRecords bucket"
  shows "filter (\<lambda>r. name r = name c \<and> path r = path c) (upsertRecord c bucket)
         = [cookieToSave c]"
proof -
  let ?P = "\<lambda>r. name r = name c \<and> path r = path c"
  let ?b = "upsertRecord c bucket"
  have d: "distinct (map (\<lambda>r. (name r, path r)) ?b)"
    using upsertRecord_distinct [OF assms] by (simp add: distinctRecords_def)
  have in_b: "cookieToSave c \<in> set ?b" by (rule upsertRecord_holds)
  have all: "\<forall>r\<in>set ?b. ?P r \<longrightarrow> r = cookieToSave c"
  proof (intro ballI impI)
    fix r assume r: "r \<in> set ?b" "?P r"
    from d have "inj_on (\<lambda>r. (name r, path r)) (set ?b)"
      by (simp add: distinct_map)
    moreover have "(name r, path r) = (name (cookieToSave c), path (cookieToSave c))"
      using r(2) by (simp add: key_cookieToSave)
    ultimately show "r = cookieToSave c"
      using r(1) in_b by (rule inj_onD)
  qed
  from d have "distinct ?b" by (simp add: distinct_map)
  then have "distinct (filter ?P ?b)" by simp
  moreover have "set (filter ?P ?b) = {cookieToSave c}"
  proof (intro equalityI subsetI)
    fix r assume "r \<in> set (filter ?P ?b)"
    with all show "r \<in> {cookieToSave c}" by simp
  next
    fix r assume "r \<in> {cookieToSave c}"
    with in_b show "r \<in> set (filter ?P ?b)" by (simp add: key_cookieToSave)
  qed
  ultimately show ?thesis
    by (rule distinct_single)
qed

text \<open>
  C6, evaluated where it fails. The active profile has the configured domain
  \<open>*.example.com\<close>, one cookie of \<open>a.example.com\<close> is live and nothing is stored. The first
  bulk save of the service-worker variant stores one record in the bucket
  \<open>a.example.com\<close>; the second pushes the same cookie onto the stored bucket, which then
  holds two records with the same name and path.
\<close>

theorem wildcard_save_duplicates:
  "map_of (profileSnapshot (cookieData
       (snd (saveCurrentProfileCookies_sw exampleChrome
              (exampleWorld (Some [''*.example.com'']) [exampleCookie ''a.example.com'' ''1'']))))
       ''work'') ''a.example.com''
     = Some [exampleCookie ''a.example.com'' ''1'']
   \<and> map_of (profileSnapshot (cookieData
       (snd (saveCurrentProfileCookies_sw exampleChrome
         (snd (saveCurrentProfileCookies_sw exampleChrome
              (exampleWorld (Some [''*.example.com''])
                 [exampleCookie ''a.example.com'' ''1'']))))))
       ''work'') ''a.example.com''
     = Some [exampleCookie ''a.example.com'' ''1'', exampleCookie ''a.example.com'' ''1'']
   \<and> \<not> distinctRecords
         [exampleCookie ''a.example.com'' ''1'', exampleCookie ''a.example.com'' ''1'']"
  by (simp add: distinctRecords_def op_defs run_defs example_defs js_eval)

end
